theory Spec2Isabelle
  imports Main
begin

section \<open>JSON values and JavaScript truthiness\<close>

text \<open>
  The hook moves values of type \<open>any\<close> around: the subscribe message, the decoded frame,
  the argument of \<open>sendMessage\<close>. They are modelled as JSON values. Numbers are kept to
  the integers; no function below computes with them beyond testing for zero.
\<close>

datatype json =
    JNull
  | JBool bool
  | JNum int
  | JStr string
  | JArr "json list"
  | JObj "(string \<times> json) list"

text \<open>\<open>if (v)\<close> on a JSON value: null, false, 0 and the empty string are falsy.\<close>

fun truthy :: "json \<Rightarrow> bool" where
  "truthy JNull = False"
| "truthy (JBool b) = b"
| "truthy (JNum n) = (n \<noteq> 0)"
| "truthy (JStr s) = (s \<noteq> [])"
| "truthy (JArr xs) = True"
| "truthy (JObj kvs) = True"

text \<open>\<open>if (v)\<close> on an optional value: \<open>undefined\<close> (and the initial \<open>null\<close> of a state
  variable) is \<open>None\<close> and is falsy.\<close>

definition truthy_opt :: "json option \<Rightarrow> bool" where
  "truthy_opt v = (case v of None \<Rightarrow> False | Some j \<Rightarrow> truthy j)"

section \<open>Configuration and platform\<close>

text \<open>\<open>interface WebSocketConfig\<close>: every field is optional.\<close>

record WebSocketConfig =
  apiKey :: "string option"
  subscribeMessage :: "json option"
  protocols :: "string list option"
  reconnect :: "bool option"
  reconnectAttempts :: "nat option"
  reconnectInterval :: "nat option"

text \<open>The destructuring defaults of lines 34 to 41: \<open>reconnect = true\<close>,
  \<open>reconnectAttempts = 5\<close>, \<open>reconnectInterval = 5000\<close>.\<close>

definition reconnect_or_default :: "WebSocketConfig \<Rightarrow> bool" where
  "reconnect_or_default config = (case reconnect config of None \<Rightarrow> True | Some b \<Rightarrow> b)"

definition reconnectAttempts_or_default :: "WebSocketConfig \<Rightarrow> nat" where
  "reconnectAttempts_or_default config =
     (case reconnectAttempts config of None \<Rightarrow> 5 | Some n \<Rightarrow> n)"

definition reconnectInterval_or_default :: "WebSocketConfig \<Rightarrow> nat" where
  "reconnectInterval_or_default config =
     (case reconnectInterval config of None \<Rightarrow> 5000 | Some n \<Rightarrow> n)"

text \<open>
  What the hook calls and does not define: \<open>JSON.parse\<close> (\<open>None\<close> when it throws),
  \<open>JSON.stringify\<close>, and whether \<open>new WebSocket(url, protocols)\<close> throws (\<open>Some e\<close> with
  \<open>e\<close> the text of the exception as the template literal renders it). Every theorem about
  the hook holds for any such platform.
\<close>

record platform =
  JSON_parse :: "string \<Rightarrow> json option"
  JSON_stringify :: "json \<Rightarrow> string"
  WebSocket_throws :: "string \<Rightarrow> string list option \<Rightarrow> string option"

section \<open>The state of one hook instance\<close>

datatype ready_state = CONNECTING | OPEN | CLOSING | CLOSED

text \<open>
  A socket object: its \<open>readyState\<close>, the frames handed to \<open>send\<close> so far, and the value
  of \<open>reconnectCount\<close> in the scope of the \<open>connect\<close> closure that created it. The handlers
  \<open>onopen\<close>, \<open>onmessage\<close>, \<open>onerror\<close>, \<open>onclose\<close> are closures of that scope, so this is
  the \<open>reconnectCount\<close> that \<open>onclose\<close> reads.
\<close>

record WebSocket =
  readyState :: ready_state
  sent :: "string list"
  scope_reconnectCount :: nat

text \<open>
  The five \<open>useState\<close> cells (lines 28 to 32), then what the closures of the current render
  hold (\<open>connect\<close> is memoised on \<open>reconnectCount\<close>, the effect's cleanup holds the
  \<open>socket\<close> of the render that ran the effect), whether the component is mounted, and the
  platform side: every socket constructed so far (a socket is named by its index), the
  pending timers (requested delay, and the \<open>reconnectCount\<close> in the scope of the callback),
  and a count of the calls of \<open>connect\<close>.
\<close>

record feed =
  socket :: "nat option"
  data :: "json option"
  isConnected :: bool
  error :: "string option"
  reconnectCount :: nat
  connect_scope :: nat
  cleanup_socket :: "nat option"
  mounted :: bool
  sockets :: "WebSocket list"
  timers :: "(nat \<times> nat) list"
  connect_calls :: nat

text \<open>The state setters. React drops an update of an unmounted component.\<close>

definition setSocket :: "nat option \<Rightarrow> feed \<Rightarrow> feed" where
  "setSocket v w = (if mounted w then w\<lparr>socket := v\<rparr> else w)"

definition setData :: "json option \<Rightarrow> feed \<Rightarrow> feed" where
  "setData v w = (if mounted w then w\<lparr>data := v\<rparr> else w)"

definition setIsConnected :: "bool \<Rightarrow> feed \<Rightarrow> feed" where
  "setIsConnected v w = (if mounted w then w\<lparr>isConnected := v\<rparr> else w)"

definition setError :: "string option \<Rightarrow> feed \<Rightarrow> feed" where
  "setError v w = (if mounted w then w\<lparr>error := v\<rparr> else w)"

definition setReconnectCount :: "(nat \<Rightarrow> nat) \<Rightarrow> feed \<Rightarrow> feed" where
  "setReconnectCount f w = (if mounted w then w\<lparr>reconnectCount := f (reconnectCount w)\<rparr> else w)"

section \<open>The socket operations the hook uses\<close>

definition readyState_of :: "feed \<Rightarrow> nat \<Rightarrow> ready_state option" where
  "readyState_of w ws =
     (if ws < length (sockets w) then Some (readyState (sockets w ! ws)) else None)"

definition sent_on :: "nat \<Rightarrow> feed \<Rightarrow> string list" where
  "sent_on ws w = (if ws < length (sockets w) then sent (sockets w ! ws) else [])"

definition set_readyState :: "nat \<Rightarrow> ready_state \<Rightarrow> feed \<Rightarrow> feed" where
  "set_readyState ws r w =
     (if ws < length (sockets w)
      then w\<lparr>sockets := (sockets w)[ws := (sockets w ! ws)\<lparr>readyState := r\<rparr>]\<rparr>
      else w)"

text \<open>
  \<open>ws.send(frame)\<close>: an open socket transmits the frame; a closing or closed one drops it
  silently. On a connecting socket \<open>send\<close> throws; both callers exclude it (\<open>onopen\<close> runs
  once the platform has set \<open>OPEN\<close>, \<open>sendMessage\<close> tests for \<open>OPEN\<close>), and the model
  transmits nothing there.
\<close>

definition ws_send :: "nat \<Rightarrow> string \<Rightarrow> feed \<Rightarrow> feed" where
  "ws_send ws frame w =
     (if readyState_of w ws = Some OPEN
      then w\<lparr>sockets := (sockets w)[ws := (sockets w ! ws)\<lparr>sent := sent (sockets w ! ws) @ [frame]\<rparr>]\<rparr>
      else w)"

text \<open>\<open>ws.close()\<close>: a connecting or open socket starts closing; otherwise nothing.\<close>

definition ws_close :: "nat \<Rightarrow> feed \<Rightarrow> feed" where
  "ws_close ws w =
     (if readyState_of w ws = Some CONNECTING \<or> readyState_of w ws = Some OPEN
      then set_readyState ws CLOSING w
      else w)"

definition setTimeout :: "nat \<Rightarrow> nat \<Rightarrow> feed \<Rightarrow> feed" where
  "setTimeout scope delay w = w\<lparr>timers := timers w @ [(delay, scope)]\<rparr>"

section \<open>useWebSocket\<close>

text \<open>
  \<open>connect\<close> (lines 43 to 103). The argument \<open>scope\<close> is the \<open>reconnectCount\<close> of the
  render that created this \<open>connect\<close> closure. The four handlers are installed on the new
  socket; they are the functions \<open>onopen\<close>, \<open>onmessage\<close>, \<open>onerror\<close>, \<open>onclose\<close> below,
  and the socket records \<open>scope\<close> for them.
\<close>

definition connect :: "platform \<Rightarrow> string \<Rightarrow> WebSocketConfig \<Rightarrow> nat \<Rightarrow> feed \<Rightarrow> feed" where
  "connect P url config scope w0 =
     (let w = w0\<lparr>connect_calls := Suc (connect_calls w0)\<rparr> in
      case WebSocket_throws P url (protocols config) of
        Some e \<Rightarrow> setError (Some (''Failed to create WebSocket connection: '' @ e)) w
      | None \<Rightarrow>
          (let ws = length (sockets w) in
           setSocket (Some ws)
             (w\<lparr>sockets := sockets w @
                  [\<lparr>readyState = CONNECTING, sent = [], scope_reconnectCount = scope\<rparr>]\<rparr>)))"

text \<open>\<open>ws.onopen\<close> (lines 47 to 61).\<close>

definition auth_envelope :: "string \<Rightarrow> json" where
  "auth_envelope k = JObj [(''type'', JStr ''auth''), (''apiKey'', JStr k)]"

definition onopen :: "platform \<Rightarrow> WebSocketConfig \<Rightarrow> nat \<Rightarrow> feed \<Rightarrow> feed" where
  "onopen P config ws w =
     (let w1 = setReconnectCount (\<lambda>_. 0) (setError None (setIsConnected True w));
          w2 = (case apiKey config of
                  Some k \<Rightarrow> if k \<noteq> [] then ws_send ws (JSON_stringify P (auth_envelope k)) w1 else w1
                | None \<Rightarrow> w1);
          w3 = (case subscribeMessage config of
                  Some m \<Rightarrow> if truthy m then ws_send ws (JSON_stringify P m) w2 else w2
                | None \<Rightarrow> w2)
      in w3)"

text \<open>\<open>ws.onmessage\<close> (lines 63 to 70).\<close>

definition onmessage :: "platform \<Rightarrow> string \<Rightarrow> feed \<Rightarrow> feed" where
  "onmessage P raw w =
     (case JSON_parse P raw of
        Some parsed \<Rightarrow> setData (Some parsed) w
      | None \<Rightarrow> setError (Some ''Failed to parse message data'') w)"

text \<open>\<open>ws.onerror\<close> (lines 72 to 75).\<close>

definition onerror :: "feed \<Rightarrow> feed" where
  "onerror w = setIsConnected False (setError (Some ''WebSocket error occurred'') w)"

text \<open>\<open>ws.onclose\<close> (lines 77 to 88); \<open>scope\<close> is the \<open>reconnectCount\<close> of the closure's
  scope. The timer callback is a closure of the same scope.\<close>

definition onclose :: "WebSocketConfig \<Rightarrow> nat \<Rightarrow> feed \<Rightarrow> feed" where
  "onclose config scope w =
     (let w1 = setError (Some ''WebSocket connection closed'') (setIsConnected False w) in
      if reconnect_or_default config \<and> scope < reconnectAttempts_or_default config
      then setTimeout scope (reconnectInterval_or_default config * 2 ^ scope) w1
      else w1)"

text \<open>The timer callback (lines 83 to 86): the \<open>connect\<close> it calls is the closure that
  scheduled it, with the same scope.\<close>

definition timer_callback :: "platform \<Rightarrow> string \<Rightarrow> WebSocketConfig \<Rightarrow> nat \<Rightarrow> feed \<Rightarrow> feed" where
  "timer_callback P url config scope w =
     connect P url config scope (setReconnectCount (\<lambda>prev. prev + 1) w)"

text \<open>\<open>sendMessage\<close> (lines 105 to 114), memoised on \<open>socket\<close>: the consumer's current
  \<open>sendMessage\<close> reads the current \<open>socket\<close>.\<close>

definition sendMessage :: "platform \<Rightarrow> json \<Rightarrow> feed \<Rightarrow> feed" where
  "sendMessage P message w =
     (case socket w of
        Some ws \<Rightarrow>
          if readyState_of w ws = Some OPEN
          then ws_send ws (JSON_stringify P message) w
          else setError (Some ''WebSocket is not connected'') w
      | None \<Rightarrow> setError (Some ''WebSocket is not connected'') w)"

text \<open>The effect (lines 116 to 121). Its cleanup is \<open>socket?.close()\<close> on the \<open>socket\<close> of
  the render that ran the effect.\<close>

definition cleanup :: "feed \<Rightarrow> feed" where
  "cleanup w = (case cleanup_socket w of None \<Rightarrow> w | Some ws \<Rightarrow> ws_close ws w)"

text \<open>The first render and its effect: every cell at its initial value, then \<open>connect()\<close>.\<close>

definition initial :: feed where
  "initial = \<lparr>socket = None, data = None, isConnected = False, error = None,
     reconnectCount = 0, connect_scope = 0, cleanup_socket = None, mounted = True,
     sockets = [], timers = [], connect_calls = 0\<rparr>"

definition mount :: "platform \<Rightarrow> string \<Rightarrow> WebSocketConfig \<Rightarrow> feed" where
  "mount P url config = connect P url config 0 initial"

text \<open>
  The render that follows a handler, with the state updates of the handler batched.
  \<open>useCallback\<close> compares its dependencies by identity. The model is of a caller that
  passes the same \<open>url\<close> and the same \<open>protocols\<close>, \<open>apiKey\<close>, \<open>subscribeMessage\<close>,
  \<open>reconnect\<close>, \<open>reconnectAttempts\<close>, \<open>reconnectInterval\<close> at every render (as
  \<open>Display\<close> does, passing no configuration); a caller that builds a new array or object
  for \<open>protocols\<close> or \<open>subscribeMessage\<close> at each render is outside it. For such a
  caller \<open>useCallback\<close> makes a new \<open>connect\<close> exactly when \<open>reconnectCount\<close> differs
  from the one the memoised \<open>connect\<close> was made with; then the effect, which depends on
  \<open>connect\<close>, runs again: the old cleanup, then the new \<open>connect()\<close>. The new cleanup
  holds the \<open>socket\<close> of this render.
\<close>

definition render :: "platform \<Rightarrow> string \<Rightarrow> WebSocketConfig \<Rightarrow> feed \<Rightarrow> feed" where
  "render P url config w =
     (if mounted w \<and> reconnectCount w \<noteq> connect_scope w
      then connect P url config (reconnectCount w)
             ((cleanup w)\<lparr>connect_scope := reconnectCount w, cleanup_socket := socket w\<rparr>)
      else w)"

text \<open>Teardown: the consumer unmounts, React runs the cleanup of the last effect.\<close>

definition teardown :: "feed \<Rightarrow> feed" where
  "teardown w = (cleanup w)\<lparr>mounted := False\<rparr>"

section \<open>Events\<close>

text \<open>
  What can happen to an instance: the platform opens a connecting socket, delivers a frame
  on an open one, reports an error, closes a socket that is not closed yet (setting
  \<open>CLOSED\<close> before \<open>onclose\<close> runs), a pending timer fires, the consumer calls
  \<open>sendMessage\<close>, the consumer unmounts. \<open>fire\<close> is \<open>None\<close> for an event that cannot
  happen in the state.
\<close>

datatype event =
    Open nat
  | Message nat string
  | Error nat
  | Close nat
  | TimerFires nat
  | SendMessage json
  | Unmount

definition fire :: "platform \<Rightarrow> string \<Rightarrow> WebSocketConfig \<Rightarrow> event \<Rightarrow> feed \<Rightarrow> feed option" where
  "fire P url config e w =
     (case e of
        Open ws \<Rightarrow>
          if readyState_of w ws = Some CONNECTING
          then Some (render P url config (onopen P config ws (set_readyState ws OPEN w)))
          else None
      | Message ws raw \<Rightarrow>
          if readyState_of w ws = Some OPEN
          then Some (render P url config (onmessage P raw w))
          else None
      | Error ws \<Rightarrow>
          if ws < length (sockets w) \<and> readyState_of w ws \<noteq> Some CLOSED
          then Some (render P url config (onerror w))
          else None
      | Close ws \<Rightarrow>
          if ws < length (sockets w) \<and> readyState_of w ws \<noteq> Some CLOSED
          then Some (render P url config
                 (onclose config (scope_reconnectCount (sockets w ! ws)) (set_readyState ws CLOSED w)))
          else None
      | TimerFires i \<Rightarrow>
          if i < length (timers w)
          then Some (render P url config
                 (timer_callback P url config (snd (timers w ! i))
                    (w\<lparr>timers := take i (timers w) @ drop (Suc i) (timers w)\<rparr>)))
          else None
      | SendMessage message \<Rightarrow>
          if mounted w then Some (render P url config (sendMessage P message w)) else None
      | Unmount \<Rightarrow>
          if mounted w then Some (teardown w) else None)"

fun run :: "platform \<Rightarrow> string \<Rightarrow> WebSocketConfig \<Rightarrow> event list \<Rightarrow> feed \<Rightarrow> feed option" where
  "run P url config [] w = Some w"
| "run P url config (e # es) w =
     (case fire P url config e w of None \<Rightarrow> None | Some w' \<Rightarrow> run P url config es w')"

inductive reachable :: "platform \<Rightarrow> string \<Rightarrow> WebSocketConfig \<Rightarrow> feed \<Rightarrow> bool"
  for P url config where
  mounted: "reachable P url config (mount P url config)"
| fired: "reachable P url config w \<Longrightarrow> fire P url config e w = Some w'
          \<Longrightarrow> reachable P url config w'"

text \<open>\<open>socket?.readyState\<close>, the value \<open>sendMessage\<close> compares with \<open>WebSocket.OPEN\<close>;
  \<open>None\<close> is \<open>undefined\<close>.\<close>

definition socket_readyState :: "feed \<Rightarrow> ready_state option" where
  "socket_readyState w = (case socket w of None \<Rightarrow> None | Some ws \<Rightarrow> readyState_of w ws)"

section \<open>The Display consumer\<close>

text \<open>
  \<open>Display\<close> (\<open>Display.tsx\<close>, lines 19 to 89) renders from \<open>data\<close>, \<open>isConnected\<close> and
  \<open>error\<close>. The result is the list of the elements it renders, \<open>None\<close> when rendering
  throws. Formatting is left out: a card keeps the numbers and the volume it would format,
  the timestamp element keeps the value it would hand to \<open>new Date\<close>.
\<close>

datatype card = Card string bool int int json

datatype element =
    ErrorAlert string
  | ConnectionBadge string
  | WaitingNotice
  | MarketGrid "card list"
  | MarketGridText string
  | LastUpdated "json option"
  | Text string

text \<open>Property access \<open>v.k\<close> on a JSON value that is not null; \<open>None\<close> is \<open>undefined\<close>.\<close>

fun get_prop :: "json \<Rightarrow> string \<Rightarrow> json option" where
  "get_prop (JObj kvs) k = map_of kvs k"
| "get_prop _ k = None"

fun show_nat :: "nat \<Rightarrow> string" where
  "show_nat n = (if n < 10 then [''0123456789'' ! n]
                 else show_nat (n div 10) @ [''0123456789'' ! (n mod 10)])"

text \<open>\<open>Object.entries\<close>: throws on \<open>undefined\<close> and \<open>null\<close>.\<close>

fun Object_entries :: "json option \<Rightarrow> (string \<times> json) list option" where
  "Object_entries None = None"
| "Object_entries (Some JNull) = None"
| "Object_entries (Some (JObj kvs)) = Some kvs"
| "Object_entries (Some (JArr xs)) = Some (zip (map show_nat [0..<length xs]) xs)"
| "Object_entries (Some (JStr s)) = Some (zip (map show_nat [0..<length s]) (map (\<lambda>c. JStr [c]) s))"
| "Object_entries (Some (JBool b)) = Some []"
| "Object_entries (Some (JNum n)) = Some []"

text \<open>
  Whether \<open>v.toLocaleString()\<close> throws on a JSON value that is not null. Numbers, strings
  and booleans have the method of their prototype. An object throws when it has a
  property \<open>toLocaleString\<close> of its own (a JSON value, never a function), and also when
  it has a \<open>toString\<close> of its own, which the inherited method calls. An array calls the
  method of each element that is not null.
\<close>

fun toLocaleString_throws :: "json \<Rightarrow> bool" where
  "toLocaleString_throws (JObj kvs) =
     (map_of kvs ''toLocaleString'' \<noteq> None \<or> map_of kvs ''toString'' \<noteq> None)"
| "toLocaleString_throws (JArr xs) = (\<exists>x \<in> set xs. toLocaleString_throws x)"
| "toLocaleString_throws JNull = False"
| "toLocaleString_throws (JBool b) = False"
| "toLocaleString_throws (JNum n) = False"
| "toLocaleString_throws (JStr s) = False"

text \<open>One card (lines 50 to 78): \<open>change.toFixed\<close>, \<open>price.toFixed\<close> need numbers,
  \<open>volume.toLocaleString()\<close> needs a value that is neither \<open>undefined\<close> nor \<open>null\<close> and on
  which the call does not throw.\<close>

fun render_card :: "string \<times> json \<Rightarrow> card option" where
  "render_card (symbol, stockData) =
     (case (get_prop stockData ''change'', get_prop stockData ''price'',
            get_prop stockData ''volume'') of
        (Some (JNum change), Some (JNum price), Some volume) \<Rightarrow>
          if volume = JNull \<or> toLocaleString_throws volume then None
          else Some (Card symbol (0 \<le> change) change price volume)
      | _ \<Rightarrow> None)"

fun sequence :: "'a option list \<Rightarrow> 'a list option" where
  "sequence [] = Some []"
| "sequence (None # xs) = None"
| "sequence (Some x # xs) = (case sequence xs of None \<Rightarrow> None | Some ys \<Rightarrow> Some (x # ys))"

text \<open>
  What React renders for the child \<open>{data && ...}\<close> when \<open>data\<close> is falsy: the value
  itself, which shows as the text 0 for the number 0 and as nothing for null, false and the
  empty string.
\<close>

fun falsy_child :: "json \<Rightarrow> string option" where
  "falsy_child (JNum n) = (if n = 0 then Some ''0'' else None)"
| "falsy_child _ = None"

text \<open>The main \<open>return\<close> (lines 32 to 88).\<close>

definition Display_page :: "json option \<Rightarrow> bool \<Rightarrow> element list option" where
  "Display_page d connected =
     (let badge = [ConnectionBadge (if connected then ''Live'' else ''Connecting...'')];
          waiting = (if \<not> truthy_opt d \<and> connected then [WaitingNotice] else [])
      in case d of
           Some v \<Rightarrow>
             if truthy v
             then (case Object_entries (get_prop v ''data'') of
                     None \<Rightarrow> None
                   | Some entries \<Rightarrow>
                       (case sequence (map render_card entries) of
                          None \<Rightarrow> None
                        | Some cards \<Rightarrow>
                            Some (badge @ waiting @ [MarketGrid cards]
                                    @ [LastUpdated (get_prop v ''timestamp'')])))
             else (case falsy_child v of
                     Some t \<Rightarrow> Some (badge @ waiting @ [MarketGridText t] @ [Text t])
                   | None \<Rightarrow> Some (badge @ waiting @ [MarketGrid []]))
         | None \<Rightarrow> Some (badge @ waiting @ [MarketGrid []]))"

text \<open>\<open>if (error)\<close> (lines 24 to 30): a string that is not empty returns the alert alone.\<close>

definition Display :: "json option \<Rightarrow> bool \<Rightarrow> string option \<Rightarrow> element list option" where
  "Display d connected err =
     (case err of
        Some e \<Rightarrow> if e \<noteq> [] then Some [ErrorAlert e] else Display_page d connected
      | None \<Rightarrow> Display_page d connected)"

section \<open>A concrete platform and concrete configurations\<close>

text \<open>
  To run the model on concrete traces: a serialiser for the JSON values above (strings are
  quoted without escaping, enough for the frames used here), a \<open>JSON.parse\<close> that knows
  two well-formed frames and rejects every other text, among them \<open>{not json\<close>, and a
  socket constructor that throws on a URL that does not start with \<open>ws\<close>.
\<close>

fun commas :: "string list \<Rightarrow> string" where
  "commas [] = []"
| "commas [x] = x"
| "commas (x # y # zs) = x @ '','' @ commas (y # zs)"

definition quoted :: "string \<Rightarrow> string" where
  "quoted s = CHR 0x22 # s @ [CHR 0x22]"

fun show_json :: "json \<Rightarrow> string" where
  "show_json JNull = ''null''"
| "show_json (JBool b) = (if b then ''true'' else ''false'')"
| "show_json (JNum n) = (if n < 0 then ''-'' @ show_nat (nat (- n)) else show_nat (nat n))"
| "show_json (JStr s) = quoted s"
| "show_json (JArr xs) = ''['' @ commas (map show_json xs) @ '']''"
| "show_json (JObj kvs) =
     ''{'' @ commas (map (\<lambda>kv. quoted (fst kv) @ '':'' @ show_json (snd kv)) kvs) @ ''}''"

definition demo_platform :: platform where
  "demo_platform =
     \<lparr>JSON_parse = map_of [(''null'', JNull), (''{'' @ quoted ''x'' @ '':1}'', JObj [(''x'', JNum 1)])],
      JSON_stringify = show_json,
      WebSocket_throws = (\<lambda>url protos. if take 2 url = ''ws'' then None
                                        else Some ''SyntaxError: invalid URL'')\<rparr>"

definition demo_url :: string where
  "demo_url = ''ws://localhost:8000/status''"

text \<open>The configuration \<open>Display\<close> passes: \<open>{}\<close>.\<close>

definition default_config :: WebSocketConfig where
  "default_config = \<lparr>apiKey = None, subscribeMessage = None, protocols = None,
     reconnect = None, reconnectAttempts = None, reconnectInterval = None\<rparr>"

definition one_retry_config :: WebSocketConfig where
  "one_retry_config = default_config\<lparr>reconnect := Some True, reconnectAttempts := Some 1,
     reconnectInterval := Some 1000\<rparr>"

definition no_retry_config :: WebSocketConfig where
  "no_retry_config = default_config\<lparr>reconnect := Some True, reconnectAttempts := Some 0,
     reconnectInterval := Some 1000\<rparr>"

definition auth_config :: WebSocketConfig where
  "auth_config = default_config\<lparr>apiKey := Some ''k1'',
     subscribeMessage := Some (JObj [(''x'', JNum 1)])\<rparr>"

definition empty_key_config :: WebSocketConfig where
  "empty_key_config = default_config\<lparr>apiKey := Some [], subscribeMessage := Some (JNum 0)\<rparr>"

text \<open>States of the traces used below, written out.\<close>

definition pending_state :: feed where
  "pending_state = \<lparr>socket = Some 0, data = None, isConnected = False,
     error = Some ''WebSocket connection closed'', reconnectCount = 0, connect_scope = 0,
     cleanup_socket = None, mounted = True,
     sockets = [\<lparr>readyState = CLOSED, sent = [], scope_reconnectCount = 0\<rparr>],
     timers = [(5000, 0)], connect_calls = 1\<rparr>"

definition live_state :: feed where
  "live_state = \<lparr>socket = Some 0, data = Some (JObj [(''x'', JNum 1)]), isConnected = True,
     error = None, reconnectCount = 0, connect_scope = 0, cleanup_socket = None, mounted = True,
     sockets = [\<lparr>readyState = OPEN, sent = [], scope_reconnectCount = 0\<rparr>],
     timers = [], connect_calls = 1\<rparr>"

definition two_socket_state :: feed where
  "two_socket_state = \<lparr>socket = Some 3, data = None, isConnected = True, error = None,
     reconnectCount = 0, connect_scope = 0, cleanup_socket = Some 2, mounted = True,
     sockets = [\<lparr>readyState = CLOSED, sent = [], scope_reconnectCount = 0\<rparr>,
                \<lparr>readyState = CLOSING, sent = [], scope_reconnectCount = 0\<rparr>,
                \<lparr>readyState = CONNECTING, sent = [], scope_reconnectCount = 1\<rparr>,
                \<lparr>readyState = CONNECTING, sent = [], scope_reconnectCount = 0\<rparr>],
     timers = [], connect_calls = 4\<rparr>"

section \<open>What each operation leaves alone\<close>

lemmas setters = setSocket_def setData_def setIsConnected_def setError_def setReconnectCount_def

lemma set_readyState_fields [simp]:
  "socket (set_readyState ws r w) = socket w" "data (set_readyState ws r w) = data w"
  "isConnected (set_readyState ws r w) = isConnected w" "error (set_readyState ws r w) = error w"
  "reconnectCount (set_readyState ws r w) = reconnectCount w"
  "connect_scope (set_readyState ws r w) = connect_scope w"
  "cleanup_socket (set_readyState ws r w) = cleanup_socket w" "mounted (set_readyState ws r w) = mounted w"
  "timers (set_readyState ws r w) = timers w" "connect_calls (set_readyState ws r w) = connect_calls w"
  "length (sockets (set_readyState ws r w)) = length (sockets w)"
  by (simp_all add: set_readyState_def)

lemma ws_send_fields [simp]:
  "socket (ws_send ws f w) = socket w" "data (ws_send ws f w) = data w"
  "isConnected (ws_send ws f w) = isConnected w" "error (ws_send ws f w) = error w"
  "reconnectCount (ws_send ws f w) = reconnectCount w" "connect_scope (ws_send ws f w) = connect_scope w"
  "cleanup_socket (ws_send ws f w) = cleanup_socket w" "mounted (ws_send ws f w) = mounted w"
  "timers (ws_send ws f w) = timers w" "connect_calls (ws_send ws f w) = connect_calls w"
  "length (sockets (ws_send ws f w)) = length (sockets w)"
  by (simp_all add: ws_send_def)

lemma readyState_of_ws_send [simp]: "readyState_of (ws_send ws f w) ws' = readyState_of w ws'"
  by (cases "ws' = ws") (simp_all add: ws_send_def readyState_of_def)

lemma sent_on_ws_send:
  "sent_on ws' (ws_send ws f w) =
     (if ws' = ws \<and> readyState_of w ws = Some OPEN then sent_on ws w @ [f] else sent_on ws' w)"
  by (cases "ws' = ws") (simp_all add: ws_send_def readyState_of_def sent_on_def)

lemma readyState_of_state_cells [simp]:
  "readyState_of (w\<lparr>isConnected := b\<rparr>) = readyState_of w"
  "readyState_of (w\<lparr>error := e\<rparr>) = readyState_of w"
  "readyState_of (w\<lparr>reconnectCount := n\<rparr>) = readyState_of w"
  "readyState_of (w\<lparr>data := d\<rparr>) = readyState_of w"
  "readyState_of (w\<lparr>socket := s\<rparr>) = readyState_of w"
  by (simp_all add: readyState_of_def fun_eq_iff)

lemma sent_on_state_cells [simp]:
  "sent_on ws (w\<lparr>isConnected := b\<rparr>) = sent_on ws w"
  "sent_on ws (w\<lparr>error := e\<rparr>) = sent_on ws w"
  "sent_on ws (w\<lparr>reconnectCount := n\<rparr>) = sent_on ws w"
  "sent_on ws (w\<lparr>data := d\<rparr>) = sent_on ws w"
  "sent_on ws (w\<lparr>socket := s\<rparr>) = sent_on ws w"
  by (simp_all add: sent_on_def)

lemma cleanup_fields [simp]:
  "socket (cleanup w) = socket w" "data (cleanup w) = data w"
  "isConnected (cleanup w) = isConnected w" "error (cleanup w) = error w"
  "reconnectCount (cleanup w) = reconnectCount w" "connect_scope (cleanup w) = connect_scope w"
  "cleanup_socket (cleanup w) = cleanup_socket w" "mounted (cleanup w) = mounted w"
  "timers (cleanup w) = timers w" "connect_calls (cleanup w) = connect_calls w"
  "length (sockets (cleanup w)) = length (sockets w)"
  by (simp_all add: cleanup_def ws_close_def split: option.split)

lemma connect_fields [simp]:
  "data (connect P url config scope w) = data w"
  "isConnected (connect P url config scope w) = isConnected w"
  "reconnectCount (connect P url config scope w) = reconnectCount w"
  "connect_scope (connect P url config scope w) = connect_scope w"
  "cleanup_socket (connect P url config scope w) = cleanup_socket w"
  "mounted (connect P url config scope w) = mounted w"
  "timers (connect P url config scope w) = timers w"
  "connect_calls (connect P url config scope w) = Suc (connect_calls w)"
  by (simp_all add: connect_def setError_def setSocket_def Let_def split: option.split)

lemma connect_constructs:
  "WebSocket_throws P url (protocols config) = None \<Longrightarrow>
   length (sockets (connect P url config scope w)) = Suc (length (sockets w))"
  by (simp add: connect_def setSocket_def Let_def)

lemma render_fields [simp]:
  "data (render P url config w) = data w"
  "isConnected (render P url config w) = isConnected w"
  "reconnectCount (render P url config w) = reconnectCount w"
  "mounted (render P url config w) = mounted w"
  "timers (render P url config w) = timers w"
  by (simp_all add: render_def)

lemma teardown_fields [simp]:
  "socket (teardown w) = socket w" "data (teardown w) = data w"
  "isConnected (teardown w) = isConnected w" "error (teardown w) = error w"
  "reconnectCount (teardown w) = reconnectCount w"
  "mounted (teardown w) = False"
  "timers (teardown w) = timers w" "connect_calls (teardown w) = connect_calls w"
  "length (sockets (teardown w)) = length (sockets w)"
  by (simp_all add: teardown_def)

subsection \<open>The error text is never empty\<close>

lemma connect_error_nonempty:
  "error w \<noteq> Some [] \<Longrightarrow> error (connect P url config scope w) \<noteq> Some []"
  by (simp add: connect_def setError_def setSocket_def Let_def split: option.split)

lemma render_error_nonempty: "error w \<noteq> Some [] \<Longrightarrow> error (render P url config w) \<noteq> Some []"
  by (simp add: render_def connect_error_nonempty)

lemma onopen_error_nonempty: "error w \<noteq> Some [] \<Longrightarrow> error (onopen P config ws w) \<noteq> Some []"
  by (cases "apiKey config"; cases "subscribeMessage config") (simp_all add: onopen_def setters Let_def)

lemma onmessage_error_nonempty: "error w \<noteq> Some [] \<Longrightarrow> error (onmessage P raw w) \<noteq> Some []"
  by (simp add: onmessage_def setters split: option.split)

lemma onerror_error_nonempty: "error w \<noteq> Some [] \<Longrightarrow> error (onerror w) \<noteq> Some []"
  by (simp add: onerror_def setters)

lemma onclose_error_nonempty: "error w \<noteq> Some [] \<Longrightarrow> error (onclose config scope w) \<noteq> Some []"
  by (simp add: onclose_def setters setTimeout_def Let_def)

lemma timer_callback_error_nonempty:
  "error w \<noteq> Some [] \<Longrightarrow> error (timer_callback P url config scope w) \<noteq> Some []"
  by (simp add: timer_callback_def connect_error_nonempty setters)

lemma sendMessage_error_nonempty:
  "error w \<noteq> Some [] \<Longrightarrow> error (sendMessage P message w) \<noteq> Some []"
  by (simp add: sendMessage_def setters split: option.split)

lemma fire_error_nonempty:
  assumes "fire P url config e w = Some w'" and "error w \<noteq> Some []"
  shows "error w' \<noteq> Some []"
proof (cases e)
  case (Open ws)
  with assms show ?thesis
    by (auto simp: fire_def split: if_splits intro!: render_error_nonempty onopen_error_nonempty)
next
  case (Message ws raw)
  with assms show ?thesis
    by (auto simp: fire_def split: if_splits intro!: render_error_nonempty onmessage_error_nonempty)
next
  case (Error ws)
  with assms show ?thesis
    by (auto simp: fire_def split: if_splits intro!: render_error_nonempty onerror_error_nonempty)
next
  case (Close ws)
  with assms show ?thesis
    by (auto simp: fire_def split: if_splits intro!: render_error_nonempty onclose_error_nonempty)
next
  case (TimerFires i)
  with assms show ?thesis
    by (auto simp: fire_def split: if_splits
          intro!: render_error_nonempty timer_callback_error_nonempty)
next
  case (SendMessage m)
  with assms show ?thesis
    by (auto simp: fire_def split: if_splits intro!: render_error_nonempty sendMessage_error_nonempty)
next
  case Unmount
  with assms show ?thesis
    by (auto simp: fire_def split: if_splits)
qed

lemma reachable_error_nonempty: "reachable P url config w \<Longrightarrow> error w \<noteq> Some []"
proof (induction rule: reachable.induct)
  case mounted
  show ?case by (simp add: mount_def connect_error_nonempty initial_def)
next
  case (fired w e w')
  from fired.hyps(2) fired.IH show ?case by (rule fire_error_nonempty)
qed

subsection \<open>Which counter a close reads\<close>

text \<open>A close schedules its retry by the \<open>reconnectCount\<close> of the scope of the closing
  socket's handlers; the current \<open>reconnectCount\<close> of the instance plays no part.\<close>

lemma close_schedules_by_scope:
  assumes "fire P url config (Close ws) w = Some w'"
  shows "timers w' =
     (if reconnect_or_default config \<and>
         scope_reconnectCount (sockets w ! ws) < reconnectAttempts_or_default config
      then timers w @ [(reconnectInterval_or_default config * 2 ^ scope_reconnectCount (sockets w ! ws),
                        scope_reconnectCount (sockets w ! ws))]
      else timers w)"
proof -
  from assms have w': "w' = render P url config
      (onclose config (scope_reconnectCount (sockets w ! ws)) (set_readyState ws CLOSED w))"
    by (simp add: fire_def split: if_splits)
  have "timers (onclose config c v) =
     (if reconnect_or_default config \<and> c < reconnectAttempts_or_default config
      then timers v @ [(reconnectInterval_or_default config * 2 ^ c, c)] else timers v)" for c v
    by (simp add: onclose_def setters setTimeout_def Let_def)
  with w' show ?thesis by simp
qed

subsection \<open>The written-out states are states of traces\<close>

lemma pending_state_reached:
  "fire demo_platform demo_url default_config (Close 0) (mount demo_platform demo_url default_config)
     = Some pending_state"
  by code_simp

lemma live_state_reached:
  "run demo_platform demo_url default_config [Open 0, Message 0 (''{'' @ quoted ''x'' @ '':1}'')]
     (mount demo_platform demo_url default_config) = Some live_state"
  by code_simp

lemma two_socket_state_reached:
  "run demo_platform demo_url one_retry_config [Close 0, TimerFires 0, Open 1]
     (mount demo_platform demo_url one_retry_config) = Some two_socket_state"
  by code_simp

section \<open>The claims\<close>

subsection \<open>C1: teardown and pending reconnect timers\<close>

text \<open>
  Claim C1 says that after teardown any pending reconnect timer is cancelled and no further
  \<open>connect()\<close> call occurs. On the code this fails: with the default configuration the
  first socket closes (a retry is scheduled after 5000 ms), the consumer unmounts, and the
  timer is still pending; when it fires, \<open>connect\<close> is called a second time.
\<close>

theorem teardown_pending_timer_counterexample:
  "map_option timers (run demo_platform demo_url default_config [Close 0, Unmount]
      (mount demo_platform demo_url default_config)) = Some [(5000, 0)] \<and>
   map_option connect_calls (run demo_platform demo_url default_config [Close 0, Unmount]
      (mount demo_platform demo_url default_config)) = Some 1 \<and>
   map_option connect_calls (run demo_platform demo_url default_config [Close 0, Unmount, TimerFires 0]
      (mount demo_platform demo_url default_config)) = Some 2"
  by code_simp

text \<open>
  Claim C1, amended: teardown cancels no timer (its cleanup is \<open>socket?.close()\<close> alone):
  the timers pending before it are pending after it, each of them can still fire, and
  when one does \<open>connect()\<close> is called once more, constructing a new socket unless the
  constructor throws.
\<close>

theorem teardown_keeps_pending_timers:
  "timers (teardown w) = timers w \<and>
   (i < length (timers w) \<longrightarrow>
     (\<exists>w'. fire P url config (TimerFires i) (teardown w) = Some w' \<and>
           connect_calls w' = Suc (connect_calls w) \<and>
           (WebSocket_throws P url (protocols config) = None \<longrightarrow>
              length (sockets w') = Suc (length (sockets w)))))"
  by (simp add: fire_def render_def timer_callback_def setters connect_constructs)

theorem teardown_keeps_pending_timers_witness:
  "(0::nat) < length (timers pending_state) \<and>
   timers (teardown pending_state) = [(5000, 0)] \<and>
   WebSocket_throws demo_platform demo_url (protocols default_config) = None \<and>
   (\<exists>w'. fire demo_platform demo_url default_config (TimerFires 0) (teardown pending_state) = Some w' \<and>
         connect_calls w' = 2 \<and> length (sockets w') = 2)"
proof -
  have t: "timers pending_state = [(5000, 0)]" and c: "connect_calls pending_state = 1"
    and l: "length (sockets pending_state) = 1"
    by (simp_all add: pending_state_def)
  have n: "WebSocket_throws demo_platform demo_url (protocols default_config) = None"
    by code_simp
  from teardown_keeps_pending_timers [of pending_state 0 demo_platform demo_url default_config]
    t c l n
  show ?thesis by (simp add: numeral_2_eq_2)
qed

subsection \<open>C2: the retry decision and its bound\<close>

text \<open>
  Claim C2 says that a close schedules a reconnect exactly when reconnecting is enabled and
  the attempt counter is below \<open>maxReconnectAttempts\<close>, attempt \<open>k\<close> after
  \<open>baseReconnectDelayMs * 2^k\<close>, so that at most \<open>N\<close> attempts follow consecutive
  failures. The code at \<open>reconnectAttempts = 1\<close>, \<open>reconnectInterval = 1000\<close>: the first
  socket closes, the timer fires (the counter becomes 1, and the timer's \<open>connect\<close>, a
  closure of the render in which the counter was 0, constructs socket 1), socket 1 closes.
  Its \<open>onclose\<close> reads 0, so a second retry is scheduled, again after 1000 ms, with the
  counter at 1. Repeating the last two steps the counter reaches 3.
\<close>

theorem stale_scope_retries_past_max:
  "reconnectAttempts_or_default one_retry_config = 1 \<and>
   map_option timers (run demo_platform demo_url one_retry_config [Close 0, TimerFires 0, Close 1]
      (mount demo_platform demo_url one_retry_config)) = Some [(1000, 0)] \<and>
   map_option reconnectCount (run demo_platform demo_url one_retry_config [Close 0, TimerFires 0, Close 1]
      (mount demo_platform demo_url one_retry_config)) = Some 1 \<and>
   map_option reconnectCount (run demo_platform demo_url one_retry_config
      [Close 0, TimerFires 0, Close 1, TimerFires 0, Close 3, TimerFires 0]
      (mount demo_platform demo_url one_retry_config)) = Some 3"
  by code_simp

subsection \<open>C3: what a successful open does\<close>

text \<open>
  Claim C3 says that on a successful open an auth envelope is sent if an \<open>authToken\<close> is
  configured and the subscribe payload is sent if one is configured. The code tests
  \<open>if (apiKey)\<close> and \<open>if (subscribeMessage)\<close>: with the empty string as \<open>apiKey\<close> and
  the number 0 as \<open>subscribeMessage\<close> the open sends nothing.
\<close>

theorem onopen_falsy_config_counterexample:
  "apiKey empty_key_config = Some [] \<and> subscribeMessage empty_key_config = Some (JNum 0) \<and>
   map_option (sent_on 0) (run demo_platform demo_url empty_key_config [Open 0]
      (mount demo_platform demo_url empty_key_config)) = Some []"
  by code_simp

text \<open>
  Claim C3, amended: when \<open>onopen\<close> runs on its (open) socket in a mounted instance,
  \<open>isConnected\<close> becomes true, \<open>error\<close> is cleared and \<open>reconnectCount\<close> is reset to 0
  whatever it was; then exactly one envelope \<open>{type: "auth", apiKey}\<close> is sent if \<open>apiKey\<close>
  is a non-empty string, and the serialised \<open>subscribeMessage\<close> is sent if it is truthy
  (not undefined, null, false, 0 or the empty string), the auth envelope first.
\<close>

theorem onopen_effects:
  "mounted w \<Longrightarrow> readyState_of w ws = Some OPEN \<Longrightarrow>
   isConnected (onopen P config ws w) \<and>
   error (onopen P config ws w) = None \<and>
   reconnectCount (onopen P config ws w) = 0 \<and>
   sent_on ws (onopen P config ws w) = sent_on ws w
     @ (case apiKey config of
          Some k \<Rightarrow> if k \<noteq> [] then [JSON_stringify P (auth_envelope k)] else []
        | None \<Rightarrow> [])
     @ (case subscribeMessage config of
          Some m \<Rightarrow> if truthy m then [JSON_stringify P m] else []
        | None \<Rightarrow> [])"
  by (cases "apiKey config"; cases "subscribeMessage config")
     (simp_all add: onopen_def setters Let_def sent_on_ws_send)

theorem onopen_effects_witness:
  "mounted (set_readyState 0 OPEN (mount demo_platform demo_url auth_config)) \<and>
   readyState_of (set_readyState 0 OPEN (mount demo_platform demo_url auth_config)) 0 = Some OPEN \<and>
   sent_on 0 (onopen demo_platform auth_config 0
               (set_readyState 0 OPEN (mount demo_platform demo_url auth_config))) =
     [''{'' @ quoted ''type'' @ '':'' @ quoted ''auth'' @ '','' @ quoted ''apiKey'' @ '':''
        @ quoted ''k1'' @ ''}'',
      ''{'' @ quoted ''x'' @ '':1}'']"
proof -
  have m: "mounted (set_readyState 0 OPEN (mount demo_platform demo_url auth_config))"
    by code_simp
  have r: "readyState_of (set_readyState 0 OPEN (mount demo_platform demo_url auth_config)) 0
             = Some OPEN"
    by code_simp
  have s: "sent_on 0 (set_readyState 0 OPEN (mount demo_platform demo_url auth_config)) = []"
    by code_simp
  have a: "JSON_stringify demo_platform (auth_envelope ''k1'') =
      ''{'' @ quoted ''type'' @ '':'' @ quoted ''auth'' @ '','' @ quoted ''apiKey'' @ '':''
        @ quoted ''k1'' @ ''}''"
    by code_simp
  have b: "JSON_stringify demo_platform (JObj [(''x'', JNum 1)]) = ''{'' @ quoted ''x'' @ '':1}''"
    by code_simp
  from onopen_effects [OF m r, of demo_platform auth_config] m r s a b show ?thesis
    by (simp add: auth_config_def default_config_def)
qed

subsection \<open>C4: a frame that does not parse\<close>

text \<open>
  Claim C4: when an inbound frame fails to parse as JSON, \<open>error\<close> becomes the
  decode-failure message and nothing else changes: \<open>data\<close> keeps the last decoded value,
  \<open>isConnected\<close> and every socket stay as they were. (Stated for a mounted instance, the
  only one with an exposed state.)
\<close>

theorem onmessage_decode_failure:
  "mounted w \<Longrightarrow> JSON_parse P raw = None \<Longrightarrow>
   onmessage P raw w = w\<lparr>error := Some ''Failed to parse message data''\<rparr>"
  by (simp add: onmessage_def setError_def)

theorem onmessage_decode_failure_witness:
  "mounted live_state \<and> JSON_parse demo_platform ''{not json'' = None \<and>
   onmessage demo_platform ''{not json'' live_state =
     live_state\<lparr>error := Some ''Failed to parse message data''\<rparr> \<and>
   data (onmessage demo_platform ''{not json'' live_state) = Some (JObj [(''x'', JNum 1)]) \<and>
   isConnected (onmessage demo_platform ''{not json'' live_state)"
proof -
  have m: "mounted live_state" by (simp add: live_state_def)
  have p: "JSON_parse demo_platform ''{not json'' = None" by code_simp
  from onmessage_decode_failure [OF m p] m p show ?thesis by (simp add: live_state_def)
qed

subsection \<open>C5: sendMessage\<close>

text \<open>
  Claim C5: a call of \<open>sendMessage\<close> while the connection is not open (the stored socket is
  absent or its \<open>readyState\<close> is not \<open>OPEN\<close>) transmits nothing and sets \<open>error\<close> to the
  not-connected message, changing nothing else; a call while it is open transmits the
  serialised message on the stored socket, on no other socket, and leaves \<open>error\<close> as it
  was.
\<close>

theorem sendMessage_gate:
  "mounted w \<Longrightarrow>
   (socket_readyState w \<noteq> Some OPEN \<longrightarrow>
      sendMessage P message w = w\<lparr>error := Some ''WebSocket is not connected''\<rparr>) \<and>
   (socket_readyState w = Some OPEN \<longrightarrow>
      (\<exists>ws. socket w = Some ws \<and>
         sent_on ws (sendMessage P message w) = sent_on ws w @ [JSON_stringify P message] \<and>
         (\<forall>ws'. ws' \<noteq> ws \<longrightarrow> sent_on ws' (sendMessage P message w) = sent_on ws' w) \<and>
         error (sendMessage P message w) = error w))"
  by (cases "socket w")
     (simp_all add: sendMessage_def socket_readyState_def setError_def sent_on_ws_send)

theorem sendMessage_gate_witness:
  "mounted pending_state \<and> socket_readyState pending_state \<noteq> Some OPEN \<and>
   sendMessage demo_platform (JNum 7) pending_state =
     pending_state\<lparr>error := Some ''WebSocket is not connected''\<rparr> \<and>
   mounted live_state \<and> socket_readyState live_state = Some OPEN \<and>
   sent_on 0 (sendMessage demo_platform (JNum 7) live_state) = [''7''] \<and>
   error (sendMessage demo_platform (JNum 7) live_state) = None"
proof -
  have m1: "mounted pending_state" by (simp add: pending_state_def)
  have n1: "socket_readyState pending_state \<noteq> Some OPEN" by code_simp
  have m2: "mounted live_state" by (simp add: live_state_def)
  have o2: "socket_readyState live_state = Some OPEN" by code_simp
  have s2: "socket live_state = Some 0" "sent_on 0 live_state = []" "error live_state = None"
    by (simp_all add: live_state_def sent_on_def)
  have j: "JSON_stringify demo_platform (JNum 7) = ''7''" by code_simp
  from sendMessage_gate [OF m1, of demo_platform "JNum 7"]
    sendMessage_gate [OF m2, of demo_platform "JNum 7"] m1 n1 m2 o2 s2 j
  show ?thesis by auto
qed

subsection \<open>C6: exhaustion\<close>

text \<open>
  Claim C6 says that once the attempts are exhausted \<open>error\<close> reports exhaustion, in a way
  that tells it from a drop still under retry. On the code the first close under
  \<open>reconnectAttempts = 1\<close> (a retry is scheduled) and the first close under
  \<open>reconnectAttempts = 0\<close> (exhausted at once) leave the same \<open>error\<close>.
\<close>

theorem exhaustion_same_error_counterexample:
  "map_option error (run demo_platform demo_url one_retry_config [Close 0]
      (mount demo_platform demo_url one_retry_config)) =
   map_option error (run demo_platform demo_url no_retry_config [Close 0]
      (mount demo_platform demo_url no_retry_config)) \<and>
   map_option timers (run demo_platform demo_url one_retry_config [Close 0]
      (mount demo_platform demo_url one_retry_config)) = Some [(1000, 0)] \<and>
   map_option timers (run demo_platform demo_url no_retry_config [Close 0]
      (mount demo_platform demo_url no_retry_config)) = Some []"
  by code_simp

text \<open>
  Claim C6, amended: every \<open>onclose\<close> of a mounted instance sets \<open>isConnected\<close> to false and
  \<open>error\<close> to the one text \<open>WebSocket connection closed\<close>, whatever the configuration and
  the attempt count, so whether or not the attempts are exhausted: the hook has no
  exhaustion report, and \<open>error\<close> does not tell an exhausted close from one still under
  retry.
\<close>

theorem onclose_one_error_text:
  "mounted w \<Longrightarrow>
   error (onclose config scope w) = Some ''WebSocket connection closed'' \<and>
   isConnected (onclose config scope w) = False"
  by (simp add: onclose_def setters setTimeout_def Let_def)

theorem onclose_one_error_text_witness:
  "mounted live_state \<and>
   reconnectCount live_state = reconnectAttempts_or_default no_retry_config \<and>
   error (onclose no_retry_config 0 live_state) = Some ''WebSocket connection closed'' \<and>
   \<not> isConnected (onclose no_retry_config 0 live_state) \<and>
   reconnectCount live_state < reconnectAttempts_or_default one_retry_config \<and>
   error (onclose one_retry_config 0 live_state) = Some ''WebSocket connection closed'' \<and>
   \<not> isConnected (onclose one_retry_config 0 live_state)"
proof -
  have m: "mounted live_state" by (simp add: live_state_def)
  have c: "reconnectCount live_state = reconnectAttempts_or_default no_retry_config"
    "reconnectCount live_state < reconnectAttempts_or_default one_retry_config"
    by code_simp+
  from onclose_one_error_text [OF m, of no_retry_config 0]
    onclose_one_error_text [OF m, of one_retry_config 0] m c
  show ?thesis by simp
qed

subsection \<open>C7: isConnected and the state of the connection\<close>

text \<open>
  Claim C7: in every reachable state \<open>isConnected\<close> equals "the connection is open". The
  handlers set the flag on the open, the error and the close of whichever socket the event
  belongs to, which tracks the connection as long as the instance has one socket. One
  firing of the retry timer builds two (the timer's \<open>connect\<close>, a closure of the old
  render, and the \<open>connect\<close> of the effect that runs again), and then the flag and the
  stored socket part. The code at \<open>reconnectAttempts = 1\<close>: the first socket closes, the
  timer fires (sockets 1 and 2 are constructed, socket 2 is stored), socket 1 opens. Then
  \<open>isConnected\<close> is true while the stored socket is still connecting and no socket of the
  instance is open.
\<close>

theorem isConnected_true_with_no_open_socket:
  "map_option isConnected (run demo_platform demo_url one_retry_config [Close 0, TimerFires 0, Open 1]
      (mount demo_platform demo_url one_retry_config)) = Some True \<and>
   map_option socket_readyState (run demo_platform demo_url one_retry_config
      [Close 0, TimerFires 0, Open 1]
      (mount demo_platform demo_url one_retry_config)) = Some (Some CONNECTING) \<and>
   map_option (map readyState \<circ> sockets) (run demo_platform demo_url one_retry_config
      [Close 0, TimerFires 0, Open 1]
      (mount demo_platform demo_url one_retry_config)) = Some [CLOSED, CLOSING, CONNECTING, CONNECTING]"
  by code_simp

subsection \<open>C8: a socket constructor that throws\<close>

text \<open>
  Claim C8: when \<open>new WebSocket\<close> throws inside \<open>connect()\<close>, \<open>error\<close> is set to the
  construction-failure message and nothing else of the instance changes: \<open>data\<close>,
  \<open>isConnected\<close>, the stored socket, \<open>reconnectCount\<close>, the sockets and the pending timers
  are as before (the call itself is counted). Stated for a mounted instance.
\<close>

theorem connect_construction_failure:
  "WebSocket_throws P url (protocols config) = Some e \<Longrightarrow> mounted w \<Longrightarrow>
   connect P url config scope w =
     w\<lparr>error := Some (''Failed to create WebSocket connection: '' @ e),
       connect_calls := Suc (connect_calls w)\<rparr>"
  by (simp add: connect_def setError_def Let_def)

theorem connect_construction_failure_witness:
  "WebSocket_throws demo_platform ''http://localhost'' (protocols default_config)
     = Some ''SyntaxError: invalid URL'' \<and> mounted initial \<and>
   connect demo_platform ''http://localhost'' default_config 0 initial =
     initial\<lparr>error := Some ''Failed to create WebSocket connection: SyntaxError: invalid URL'',
            connect_calls := 1\<rparr>"
proof -
  have t: "WebSocket_throws demo_platform ''http://localhost'' (protocols default_config)
     = Some ''SyntaxError: invalid URL''" by code_simp
  have m: "mounted initial" by (simp add: initial_def)
  from connect_construction_failure [OF t m, of 0] t m show ?thesis by (simp add: initial_def)
qed

subsection \<open>C9: sendMessage reads the socket, not the flag\<close>

text \<open>
  Claim C9: \<open>sendMessage\<close> does the same whatever \<open>isConnected\<close> reads; in a mounted
  instance whose stored socket is absent or not \<open>OPEN\<close> it transmits nothing (no socket
  changes) and sets the not-connected error, also when \<open>isConnected\<close> is true.
\<close>

theorem sendMessage_reads_socket_not_flag:
  "sendMessage P message (w\<lparr>isConnected := b\<rparr>) = (sendMessage P message w)\<lparr>isConnected := b\<rparr> \<and>
   (mounted w \<and> socket_readyState w \<noteq> Some OPEN \<longrightarrow>
      sockets (sendMessage P message w) = sockets w \<and>
      error (sendMessage P message w) = Some ''WebSocket is not connected'' \<and>
      isConnected (sendMessage P message w) = isConnected w)"
  by (cases "socket w")
     (simp_all add: sendMessage_def socket_readyState_def setError_def ws_send_def)

theorem sendMessage_reads_socket_not_flag_witness:
  "mounted two_socket_state \<and> isConnected two_socket_state \<and>
   socket_readyState two_socket_state = Some CONNECTING \<and>
   sockets (sendMessage demo_platform (JNum 7) two_socket_state) = sockets two_socket_state \<and>
   error (sendMessage demo_platform (JNum 7) two_socket_state) = Some ''WebSocket is not connected'' \<and>
   isConnected (sendMessage demo_platform (JNum 7) two_socket_state)"
proof -
  have m: "mounted two_socket_state" "isConnected two_socket_state"
    by (simp_all add: two_socket_state_def)
  have r: "socket_readyState two_socket_state = Some CONNECTING" by code_simp
  from sendMessage_reads_socket_not_flag
         [where w = two_socket_state and P = demo_platform and message = "JNum 7"] m r
  show ?thesis by simp
qed

subsection \<open>C10: Display with an error\<close>

text \<open>
  Claim C10: whenever the \<open>error\<close> the hook exposes is not null, \<open>Display\<close> renders the
  error alert and nothing else (no badge, no grid, no timestamp), whatever \<open>isConnected\<close>
  and \<open>data\<close> are. \<open>Display\<close> tests \<open>if (error)\<close>, which the empty string would fail;
  the hook never exposes the empty string.
\<close>

theorem Display_error_alert_only:
  "reachable P url config w \<Longrightarrow> error w = Some e \<Longrightarrow>
   Display (data w) (isConnected w) (error w) = Some [ErrorAlert e]"
  using reachable_error_nonempty [of P url config w] by (simp add: Display_def)

theorem Display_error_alert_only_witness:
  "reachable demo_platform demo_url default_config pending_state \<and>
   error pending_state = Some ''WebSocket connection closed'' \<and>
   Display (data pending_state) (isConnected pending_state) (error pending_state) =
     Some [ErrorAlert ''WebSocket connection closed'']"
proof -
  have r: "reachable demo_platform demo_url default_config pending_state"
    using reachable.mounted pending_state_reached by (rule reachable.fired)
  have e: "error pending_state = Some ''WebSocket connection closed''"
    by (simp add: pending_state_def)
  from Display_error_alert_only [OF r e] r e show ?thesis by simp
qed

end
